theory Spec2Isabelle
  imports Complex_Main
begin

section \<open>Data model (types.ts)\<close>

text \<open>
  JavaScript numbers are modelled by exact reals: every weight of the transit graph is a
  dyadic rational and every sum below is exact in double precision as well. The value
  \<^verbatim>\<open>Infinity\<close>, which the routing engine uses for "not reached yet", is a constructor of
  its own. Millisecond clock readings (\<^verbatim>\<open>Date.now()\<close>) are natural numbers.
\<close>

record Coordinates =
  lat :: real
  lng :: real

record RouteStep =
  instruction :: string
  step_type :: string
  distance :: real
  duration :: real
  way_points :: "int \<times> int"

datatype RouteType = FASTEST | CHEAPEST | SHORTEST

record CalculatedRoute =
  route_id :: string
  totalTimeMin :: real
  totalDistanceKm :: real
  totalCost :: real
  path :: "Coordinates list"
  steps :: "RouteStep list"
  route_type :: RouteType
  tags :: "string list"

text \<open>
  The exceptions of the code: a \<^verbatim>\<open>TypeError\<close> (a property read from \<^verbatim>\<open>undefined\<close>, or
  a rejected \<^verbatim>\<open>fetch\<close>), the \<^verbatim>\<open>Error\<close> that the gateway throws itself on a bad status,
  and the \<^verbatim>\<open>SyntaxError\<close> of a body that is not JSON.
\<close>

datatype error = TypeError | ApiError | SyntaxError

text \<open>
  What a call does: it returns a value, throws, or never returns.
\<close>

datatype 'a outcome = Returns 'a | Throws error | Diverges

section \<open>The transit graph (routeCalculator.ts)\<close>

datatype ConnType = WALK | RIDE

datatype TerminalType = BUS | JEEP | E_JEEP | TRICYCLE | MIXED

record Connection =
  targetId :: string
  distanceKm :: real
  timeMin :: real
  cost :: real
  conn_type :: ConnType
  vehicleType :: "string option"

record GraphNode =
  node_id :: string
  node_name :: string
  node_address :: string
  coords :: Coordinates
  terminalType :: "TerminalType option"
  connections :: "Connection list"

text \<open>
  \<^verbatim>\<open>GRAPH_NODES\<close> is an object literal with string keys; \<^verbatim>\<open>Object.keys\<close> and
  \<^verbatim>\<open>Object.values\<close> enumerate it in insertion order, so it is an association list.
\<close>

definition GRAPH_NODES :: "(string \<times> GraphNode) list" where
  "GRAPH_NODES =
   [(''ts_palengke'',
     \<lparr>node_id = ''ts_palengke'', node_name = ''Tandang Sora Palengke'',
      node_address = ''Tandang Sora Palengke, Tandang Sora Ave, Quezon City, 1116 Metro Manila'',
      coords = \<lparr>lat = 14.6741, lng = 121.0359\<rparr>, terminalType = Some MIXED,
      connections =
       [\<lparr>targetId = ''visayas_ave'', distanceKm = 2.5, timeMin = 15, cost = 13,
         conn_type = RIDE, vehicleType = Some ''JEEP''\<rparr>,
        \<lparr>targetId = ''comm_ave'', distanceKm = 3.0, timeMin = 20, cost = 15,
         conn_type = RIDE, vehicleType = Some ''JEEP''\<rparr>]\<rparr>),
    (''visayas_ave'',
     \<lparr>node_id = ''visayas_ave'', node_name = ''Visayas Avenue Junction'',
      node_address = ''Visayas Avenue, corner Tandang Sora Ave, Quezon City, 1128 Metro Manila'',
      coords = \<lparr>lat = 14.6650, lng = 121.0450\<rparr>, terminalType = Some JEEP,
      connections =
       [\<lparr>targetId = ''ts_palengke'', distanceKm = 2.5, timeMin = 15, cost = 13,
         conn_type = RIDE, vehicleType = Some ''JEEP''\<rparr>,
        \<lparr>targetId = ''technohub'', distanceKm = 4.0, timeMin = 25, cost = 20,
         conn_type = RIDE, vehicleType = Some ''BUS''\<rparr>]\<rparr>),
    (''comm_ave'',
     \<lparr>node_id = ''comm_ave'', node_name = ''Commonwealth Avenue'',
      node_address = ''Commonwealth Ave, Diliman, Quezon City, 1101 Metro Manila'',
      coords = \<lparr>lat = 14.6680, lng = 121.0550\<rparr>, terminalType = Some BUS,
      connections =
       [\<lparr>targetId = ''ts_palengke'', distanceKm = 3.0, timeMin = 20, cost = 15,
         conn_type = RIDE, vehicleType = Some ''JEEP''\<rparr>,
        \<lparr>targetId = ''technohub'', distanceKm = 1.5, timeMin = 5, cost = 0,
         conn_type = WALK, vehicleType = None\<rparr>]\<rparr>),
    (''technohub'',
     \<lparr>node_id = ''technohub'', node_name = ''UP Ayala Technohub'',
      node_address = ''UP Ayala Technohub, Commonwealth Ave, Diliman, Quezon City, 1101 Metro Manila'',
      coords = \<lparr>lat = 14.6575, lng = 121.0580\<rparr>, terminalType = Some E_JEEP,
      connections =
       [\<lparr>targetId = ''visayas_ave'', distanceKm = 4.0, timeMin = 25, cost = 20,
         conn_type = RIDE, vehicleType = Some ''BUS''\<rparr>]\<rparr>),
    (''culiat_tricycle'',
     \<lparr>node_id = ''culiat_tricycle'', node_name = ''Culiat Tricycle Toda'',
      node_address = ''Culiat High School, Tandang Sora Ave, Quezon City, 1128 Metro Manila'',
      coords = \<lparr>lat = 14.6620, lng = 121.0500\<rparr>, terminalType = Some TRICYCLE,
      connections =
       [\<lparr>targetId = ''visayas_ave'', distanceKm = 1.0, timeMin = 10, cost = 20,
         conn_type = RIDE, vehicleType = Some ''TRICYCLE''\<rparr>]\<rparr>)]"

text \<open>\<^verbatim>\<open>GRAPH_NODES[id]\<close>: the node stored under a key, if any.\<close>

definition graphNode :: "string \<Rightarrow> GraphNode option" where
  "graphNode k = map_of GRAPH_NODES k"

subsection \<open>Numbers with Infinity\<close>

datatype extnum = Num real | Infinity

fun num_less :: "extnum \<Rightarrow> extnum \<Rightarrow> bool" where
  "num_less (Num a) (Num b) = (a < b)"
| "num_less (Num a) Infinity = True"
| "num_less Infinity b = False"

subsection \<open>Nearest-node search\<close>

text \<open>
  One iteration of the \<^verbatim>\<open>forEach\<close> in \<^verbatim>\<open>findNearestNode\<close>; the accumulator is the pair
  \<^verbatim>\<open>(minDesc, nearestId)\<close>.
\<close>

definition nearestStep ::
  "real \<Rightarrow> real \<Rightarrow> extnum \<times> string option \<Rightarrow> GraphNode \<Rightarrow> extnum \<times> string option" where
  "nearestStep la lo acc node =
     (let d = sqrt ((lat (coords node) - la)\<^sup>2 + (lng (coords node) - lo)\<^sup>2)
      in if num_less (Num d) (fst acc) then (Num d, Some (node_id node)) else acc)"

definition findNearestNode :: "real \<Rightarrow> real \<Rightarrow> string option" where
  "findNearestNode la lo =
     snd (foldl (nearestStep la lo) (Infinity, None) (map snd GRAPH_NODES))"

subsection \<open>Dijkstra's algorithm\<close>

datatype Metric = TIME | DISTANCE | COST

fun weightOf :: "Metric \<Rightarrow> Connection \<Rightarrow> real" where
  "weightOf TIME c = timeMin c"
| "weightOf DISTANCE c = distanceKm c"
| "weightOf COST c = cost c"

text \<open>
  The search state: the tables \<^verbatim>\<open>distances\<close> and \<^verbatim>\<open>previous\<close> and the set
  \<^verbatim>\<open>processed\<close>. A key that is absent from \<^verbatim>\<open>previous\<close>, or bound to \<^verbatim>\<open>null\<close>, reads as
  \<open>None\<close>: the code only ever tests such a value for truthiness.
\<close>

record SearchState =
  distances :: "string \<rightharpoonup> extnum"
  previous :: "string \<rightharpoonup> string"
  processed :: "string set"

text \<open>
  The comparator \<^verbatim>\<open>(a, b) => distances[a] - distances[b]\<close>: negative exactly when
  \<^verbatim>\<open>distances[a]\<close> is the smaller one. \<^verbatim>\<open>Infinity - Infinity\<close> and any difference with
  \<^verbatim>\<open>undefined\<close> are \<^verbatim>\<open>NaN\<close>, which \<^verbatim>\<open>Array.prototype.sort\<close> reads as "equal".
\<close>

definition queueLess :: "(string \<rightharpoonup> extnum) \<Rightarrow> string \<Rightarrow> string \<Rightarrow> bool" where
  "queueLess ds a b =
     (case (ds a, ds b) of (Some x, Some y) \<Rightarrow> num_less x y | _ \<Rightarrow> False)"

text \<open>\<^verbatim>\<open>queue.sort\<close> is a stable sort: equal elements keep their order.\<close>

fun insertQueue :: "(string \<rightharpoonup> extnum) \<Rightarrow> string \<Rightarrow> string list \<Rightarrow> string list" where
  "insertQueue ds a [] = [a]"
| "insertQueue ds a (b # bs) =
     (if queueLess ds b a then b # insertQueue ds a bs else a # b # bs)"

fun sortQueue :: "(string \<rightharpoonup> extnum) \<Rightarrow> string list \<Rightarrow> string list" where
  "sortQueue ds [] = []"
| "sortQueue ds (a # as) = insertQueue ds a (sortQueue ds as)"

text \<open>
  The \<^verbatim>\<open>for (const neighbor of neighbors)\<close> loop. \<^verbatim>\<open>distances[u] + weight\<close> with an
  absent \<^verbatim>\<open>distances[u]\<close> is \<^verbatim>\<open>NaN\<close>, and so is a comparison with an absent
  \<^verbatim>\<open>distances[neighbor.targetId]\<close>: both compare false and nothing is updated.
\<close>

fun num_add :: "extnum \<Rightarrow> real \<Rightarrow> extnum" where
  "num_add (Num a) w = Num (a + w)"
| "num_add Infinity w = Infinity"

fun relaxNeighbors :: "Metric \<Rightarrow> string \<Rightarrow> Connection list \<Rightarrow> SearchState \<Rightarrow> SearchState" where
  "relaxNeighbors metric u [] st = st"
| "relaxNeighbors metric u (neighbor # rest) st =
     (if targetId neighbor \<in> processed st then relaxNeighbors metric u rest st
      else
        (case (distances st u, distances st (targetId neighbor)) of
           (Some du, Some dt) \<Rightarrow>
             (let alt = num_add du (weightOf metric neighbor)
              in if num_less alt dt
                 then relaxNeighbors metric u rest
                        (st\<lparr>distances := (distances st)(targetId neighbor \<mapsto> alt),
                            previous := (previous st)(targetId neighbor \<mapsto> u)\<rparr>)
                 else relaxNeighbors metric u rest st)
         | _ \<Rightarrow> relaxNeighbors metric u rest st))"

lemma length_insertQueue: "length (insertQueue ds a bs) = Suc (length bs)"
  by (induction bs) auto

lemma length_sortQueue: "length (sortQueue ds q) = length q"
  by (induction q) (auto simp: length_insertQueue)

text \<open>
  The main \<^verbatim>\<open>while (queue.length > 0)\<close> loop. \<^verbatim>\<open>queue.shift()\<close> on an empty queue
  would give \<^verbatim>\<open>undefined\<close>; the test \<^verbatim>\<open>!u\<close> is also true of the empty string.
\<close>

function mainLoop :: "Metric \<Rightarrow> string \<Rightarrow> string list \<Rightarrow> SearchState \<Rightarrow> error + SearchState" where
  "mainLoop metric endNodeId queue st =
     (case sortQueue (distances st) queue of
        [] \<Rightarrow> Inr st
      | u # rest \<Rightarrow>
          if u = [] \<or> distances st u = Some Infinity then Inr st
          else if u = endNodeId then Inr st
          else
            (case graphNode u of
               None \<Rightarrow> Inl TypeError
             | Some node \<Rightarrow>
                 (let st' = relaxNeighbors metric u (connections node) st
                  in mainLoop metric endNodeId rest
                       (st'\<lparr>processed := insert u (processed st')\<rparr>))))"
  by pat_completeness auto
termination
proof (relation "measure (\<lambda>(metric, endNodeId, queue, st). length queue)")
  show "wf (measure (\<lambda>(metric, endNodeId, queue, st). length queue))"
    by simp
next
  fix metric :: Metric and endNodeId :: string and queue :: "string list"
    and st :: SearchState and u rest node st'
  assume "sortQueue (distances st) queue = u # rest"
  then have "length queue = Suc (length rest)"
    using length_sortQueue [of "distances st" queue] by simp
  then show "((metric, endNodeId, rest, st'\<lparr>processed := insert u (processed st')\<rparr>),
              (metric, endNodeId, queue, st))
             \<in> measure (\<lambda>(metric, endNodeId, queue, st). length queue)"
    by simp
qed

declare mainLoop.simps [simp del]

text \<open>
  Path reconstruction: \<^verbatim>\<open>while (current) { path.unshift(current); current =
  previous[current]; }\<close>. The loop runs for as long as the predecessor chain does, so
  the model is a partial function: \<open>None\<close> means that the loop never ends.
\<close>

partial_function (option) walkBack ::
  "(string \<rightharpoonup> string) \<Rightarrow> string option \<Rightarrow> string list \<Rightarrow> string list option" where
  "walkBack prev current acc =
     (case current of
        None \<Rightarrow> Some acc
      | Some c \<Rightarrow> if c = [] then Some acc else walkBack prev (prev c) (c # acc))"

declare walkBack.simps [code]

subsection \<open>Rendering numbers\<close>

text \<open>
  A template literal prints an integer clock reading in decimal, without leading zeros.
\<close>

definition digit_char :: "nat \<Rightarrow> char" where
  "digit_char d = ''0123456789'' ! (d mod 10)"

fun string_of_nat :: "nat \<Rightarrow> string" where
  "string_of_nat n =
     (if n < 10 then [digit_char n] else string_of_nat (n div 10) @ [digit_char (n mod 10)])"

declare string_of_nat.simps [simp del]

subsection \<open>Assembling the itinerary\<close>

text \<open>\<^verbatim>\<open>path.map(id => GRAPH_NODES[id].coords)\<close>; an unknown id throws.\<close>

fun pathCoords :: "string list \<Rightarrow> error + Coordinates list" where
  "pathCoords [] = Inr []"
| "pathCoords (i # is) =
     (case graphNode i of
        None \<Rightarrow> Inl TypeError
      | Some node \<Rightarrow>
          (case pathCoords is of Inl e \<Rightarrow> Inl e | Inr cs \<Rightarrow> Inr (coords node # cs)))"

text \<open>
  The text of one leg. An absent \<^verbatim>\<open>vehicleType\<close> is printed by the template literal as
  \<^verbatim>\<open>undefined\<close>, and counts as falsy, like the empty string, for the transport type.
\<close>

definition stepOf :: "Connection \<Rightarrow> GraphNode \<Rightarrow> RouteStep" where
  "stepOf conn toNode =
     \<lparr>instruction =
        (if conn_type conn = WALK then ''Walk to '' @ node_name toNode
         else ''Ride '' @ (case vehicleType conn of None \<Rightarrow> ''undefined'' | Some v \<Rightarrow> v)
              @ '' to '' @ node_name toNode),
      step_type =
        (if conn_type conn = WALK then ''WALK''
         else (case vehicleType conn of
                 None \<Rightarrow> ''CAR''
               | Some v \<Rightarrow> if v = [] then ''CAR'' else v)),
      distance = distanceKm conn * 1000,
      duration = timeMin conn * 60,
      way_points = (0, 0)\<rparr>"

text \<open>
  The loop over consecutive nodes of the path. The accumulator holds \<^verbatim>\<open>steps\<close>,
  \<^verbatim>\<open>totalTime\<close>, \<^verbatim>\<open>totalDist\<close> and \<^verbatim>\<open>totalCost\<close>. The edge is the first connection
  of \<^verbatim>\<open>fromId\<close> to \<^verbatim>\<open>toId\<close>; a pair without one contributes nothing.
\<close>

fun buildSteps ::
  "string list \<Rightarrow> RouteStep list \<times> real \<times> real \<times> real
     \<Rightarrow> error + (RouteStep list \<times> real \<times> real \<times> real)" where
  "buildSteps (fromId # toId # rest) (ss, totalTime, totalDist, totalCst) =
     (case graphNode fromId of
        None \<Rightarrow> Inl TypeError
      | Some fromNode \<Rightarrow>
          (case find (\<lambda>c. targetId c = toId) (connections fromNode) of
             None \<Rightarrow> buildSteps (toId # rest) (ss, totalTime, totalDist, totalCst)
           | Some conn \<Rightarrow>
               (case graphNode toId of
                  None \<Rightarrow> Inl TypeError
                | Some toNode \<Rightarrow>
                    buildSteps (toId # rest)
                      (ss @ [stepOf conn toNode], totalTime + timeMin conn,
                       totalDist + distanceKm conn, totalCst + cost conn))))"
| "buildSteps p acc = Inr acc"

fun routeTypeOf :: "Metric \<Rightarrow> RouteType" where
  "routeTypeOf TIME = FASTEST"
| "routeTypeOf DISTANCE = SHORTEST"
| "routeTypeOf COST = CHEAPEST"

fun tagsOf :: "Metric \<Rightarrow> string list" where
  "tagsOf TIME = [''Fastest'']"
| "tagsOf COST = [''Cheapest'']"
| "tagsOf DISTANCE = [''Shortest'']"

text \<open>Step 2 of \<^verbatim>\<open>calculateRoute\<close>: all distances infinite, the start at 0.\<close>

definition initState :: "string \<Rightarrow> SearchState" where
  "initState startNodeId =
     \<lparr>distances = (map_of (map (\<lambda>k. (k, Infinity)) (map fst GRAPH_NODES)))(startNodeId \<mapsto> Num 0),
      previous = Map.empty,
      processed = {}\<rparr>"

text \<open>
  Steps 2 to 4 of \<^verbatim>\<open>calculateRoute\<close> for resolved endpoints: the search and the walk
  back along \<^verbatim>\<open>previous\<close>, giving the list of node ids \<^verbatim>\<open>path\<close>.
\<close>

definition nodePath :: "string \<Rightarrow> string \<Rightarrow> Metric \<Rightarrow> string list outcome" where
  "nodePath startNodeId endNodeId metric =
     (case mainLoop metric endNodeId (map fst GRAPH_NODES) (initState startNodeId) of
        Inl e \<Rightarrow> Throws e
      | Inr st \<Rightarrow>
          (case walkBack (previous st) (Some endNodeId) [] of
             None \<Rightarrow> Diverges
           | Some p \<Rightarrow> Returns p))"

text \<open>
  Step 5 of \<^verbatim>\<open>calculateRoute\<close>: the itinerary of a node path; \<open>now\<close> is the reading of
  \<^verbatim>\<open>Date.now()\<close>.
\<close>

definition assemble :: "string list \<Rightarrow> Metric \<Rightarrow> nat \<Rightarrow> CalculatedRoute option outcome" where
  "assemble p metric now =
     (case pathCoords p of
        Inl e \<Rightarrow> Throws e
      | Inr pcs \<Rightarrow>
          (case buildSteps p ([], 0, 0, 0) of
             Inl e \<Rightarrow> Throws e
           | Inr (ss, totalTime, totalDist, totalCst) \<Rightarrow>
               Returns (Some
                 \<lparr>route_id = ''route-'' @ string_of_nat now,
                  totalTimeMin = totalTime,
                  totalDistanceKm = totalDist,
                  totalCost = totalCst,
                  path = pcs,
                  steps = ss,
                  route_type = routeTypeOf metric,
                  tags = tagsOf metric\<rparr>)))"

text \<open>
  \<^verbatim>\<open>!startNodeId\<close> holds of \<^verbatim>\<open>null\<close> and of the empty string.
\<close>

definition falsy :: "string option \<Rightarrow> bool" where
  "falsy v = (case v of None \<Rightarrow> True | Some s \<Rightarrow> s = [])"

definition calculateRoute ::
  "Coordinates \<Rightarrow> Coordinates \<Rightarrow> Metric \<Rightarrow> nat \<Rightarrow> CalculatedRoute option outcome" where
  "calculateRoute start end metric now =
     (let startNodeId = findNearestNode (lat start) (lng start);
          endNodeId = findNearestNode (lat end) (lng end)
      in if falsy startNodeId \<or> falsy endNodeId \<or> startNodeId = endNodeId then Returns None
         else
           (case (startNodeId, endNodeId) of
              (Some s, Some e) \<Rightarrow>
                (case nodePath s e metric of
                   Throws err \<Rightarrow> Throws err
                 | Diverges \<Rightarrow> Diverges
                 | Returns p \<Rightarrow>
                     (case p of
                        [] \<Rightarrow> Returns None
                      | p0 # ps \<Rightarrow> if p0 \<noteq> s then Returns None else assemble p metric now))
            | _ \<Rightarrow> Returns None))"

section \<open>Reference shortest paths\<close>

text \<open>
  The edges of the graph under a metric, and Bellman-Ford over them: \<open>|V| - 1\<close> rounds,
  each relaxing every edge once.
\<close>

definition edgesOf :: "Metric \<Rightarrow> (string \<times> string \<times> real) list" where
  "edgesOf metric =
     concat (map (\<lambda>(k, node). map (\<lambda>c. (k, targetId c, weightOf metric c)) (connections node))
                 GRAPH_NODES)"

text \<open>
  The table of tentative distances, one entry per node of the graph; a node without an
  entry counts as unreachable.
\<close>

definition lookupDist :: "(string \<times> extnum) list \<Rightarrow> string \<Rightarrow> extnum" where
  "lookupDist d v = (case map_of d v of Some x \<Rightarrow> x | None \<Rightarrow> Infinity)"

definition bfRelax ::
  "(string \<times> extnum) list \<Rightarrow> string \<times> string \<times> real \<Rightarrow> (string \<times> extnum) list" where
  "bfRelax d e =
     (case e of (u, v, w) \<Rightarrow>
        if num_less (num_add (lookupDist d u) w) (lookupDist d v)
        then map (\<lambda>(k, x). if k = v then (k, num_add (lookupDist d u) w) else (k, x)) d
        else d)"

fun bfRounds :: "nat \<Rightarrow> Metric \<Rightarrow> (string \<times> extnum) list \<Rightarrow> (string \<times> extnum) list" where
  "bfRounds 0 metric d = d"
| "bfRounds (Suc n) metric d = bfRounds n metric (foldl bfRelax d (edgesOf metric))"

definition bfTable :: "Metric \<Rightarrow> string \<Rightarrow> (string \<times> extnum) list" where
  "bfTable metric s =
     bfRounds (length GRAPH_NODES - 1) metric
       (map (\<lambda>k. (k, if k = s then Num 0 else Infinity)) (map fst GRAPH_NODES))"

definition bellmanFord :: "Metric \<Rightarrow> string \<Rightarrow> string \<Rightarrow> extnum" where
  "bellmanFord metric s v = lookupDist (bfTable metric s) v"

text \<open>
  The weight of a list of node ids read as a walk: the sum of the weights of its edges,
  \<open>None\<close> when two consecutive nodes are not joined by an edge.
\<close>

fun pathWeight :: "Metric \<Rightarrow> string list \<Rightarrow> real option" where
  "pathWeight metric (u # v # rest) =
     (case graphNode u of
        None \<Rightarrow> None
      | Some node \<Rightarrow>
          (case find (\<lambda>c. targetId c = v) (connections node) of
             None \<Rightarrow> None
           | Some c \<Rightarrow>
               (case pathWeight metric (v # rest) of
                  None \<Rightarrow> None
                | Some w \<Rightarrow> Some (weightOf metric c + w))))"
| "pathWeight metric p = Some 0"

text \<open>The total of an itinerary that belongs to a metric.\<close>

fun metricTotal :: "Metric \<Rightarrow> CalculatedRoute \<Rightarrow> real" where
  "metricTotal TIME r = totalTimeMin r"
| "metricTotal DISTANCE r = totalDistanceKm r"
| "metricTotal COST r = totalCost r"

section \<open>The geocoding gateway (openRouteService)\<close>

subsection \<open>Strings and number formatting\<close>

text \<open>
  Strings are ASCII here, as the fallback data is. \<^verbatim>\<open>toLowerCase\<close> maps \<^verbatim>\<open>A\<close> to
  \<^verbatim>\<open>Z\<close> onto \<^verbatim>\<open>a\<close> to \<^verbatim>\<open>z\<close>; \<^verbatim>\<open>hay.includes(needle)\<close> looks for \<^verbatim>\<open>needle\<close> at every
  position of \<^verbatim>\<open>hay\<close>.
\<close>

definition lowerChar :: "char \<Rightarrow> char" where
  "lowerChar c =
     (let n = (of_char c :: nat) in if 65 \<le> n \<and> n \<le> 90 then char_of (n + 32) else c)"

definition toLowerCase :: "string \<Rightarrow> string" where
  "toLowerCase s = map lowerChar s"

fun startsWith :: "string \<Rightarrow> string \<Rightarrow> bool" where
  "startsWith hay [] = True"
| "startsWith [] (n # ns) = False"
| "startsWith (h # hs) (n # ns) = (h = n \<and> startsWith hs ns)"

fun includesStr :: "string \<Rightarrow> string \<Rightarrow> bool" where
  "includesStr [] needle = (needle = [])"
| "includesStr (h # hs) needle = (startsWith (h # hs) needle \<or> includesStr hs needle)"

text \<open>
  \<^verbatim>\<open>x.toFixed(f)\<close> for a magnitude below \<open>10\<^sup>2\<^sup>1\<close>: the integer \<open>n\<close> nearest to
  \<open>|x| * 10\<^sup>f\<close> (the larger one of two), printed with \<open>f\<close> digits after the point
  and a minus sign when \<open>x < 0\<close>. \<^verbatim>\<open>parseFloat(x.toFixed(f))\<close> reads that text back.
\<close>

definition fixedDigits :: "nat \<Rightarrow> real \<Rightarrow> nat" where
  "fixedDigits f x = nat \<lfloor>\<bar>x\<bar> * 10 ^ f + 1 / 2\<rfloor>"

definition padZeros :: "nat \<Rightarrow> string \<Rightarrow> string" where
  "padZeros f s = replicate (f - length s) (CHR ''0'') @ s"

definition toFixed :: "nat \<Rightarrow> real \<Rightarrow> string" where
  "toFixed f x =
     (let n = fixedDigits f x
      in (if x < 0 then ''-'' else []) @ string_of_nat (n div 10 ^ f)
         @ (if f = 0 then [] else ''.'' @ padZeros f (string_of_nat (n mod 10 ^ f))))"

definition parseFixed :: "nat \<Rightarrow> real \<Rightarrow> real" where
  "parseFixed f x =
     (if x < 0 then - (real (fixedDigits f x) / 10 ^ f) else real (fixedDigits f x) / 10 ^ f)"

subsection \<open>Fallback data and the throttle state\<close>

record Place =
  place_name :: string
  place_address :: string
  place_lat :: real
  place_lng :: real

definition MOCK_FALLBACK_LOCATIONS :: "Place list" where
  "MOCK_FALLBACK_LOCATIONS =
   [\<lparr>place_name = ''Tandang Sora Palengke'', place_address = ''Tandang Sora Ave, Quezon City'',
     place_lat = 14.6741, place_lng = 121.0359\<rparr>,
    \<lparr>place_name = ''Visayas Avenue Junction'', place_address = ''Visayas Ave, Quezon City'',
     place_lat = 14.6650, place_lng = 121.0450\<rparr>,
    \<lparr>place_name = ''Commonwealth Market'', place_address = ''Commonwealth Ave, Quezon City'',
     place_lat = 14.6680, place_lng = 121.0550\<rparr>,
    \<lparr>place_name = ''UP Ayala Technohub'', place_address = ''Commonwealth Ave, Diliman, QC'',
     place_lat = 14.6575, place_lng = 121.0580\<rparr>,
    \<lparr>place_name = ''SM City North EDSA'', place_address = ''North Avenue, Quezon City'',
     place_lat = 14.6560, place_lng = 121.0290\<rparr>,
    \<lparr>place_name = ''Trinoma Mall'', place_address = ''North Avenue, Quezon City'',
     place_lat = 14.6540, place_lng = 121.0330\<rparr>,
    \<lparr>place_name = ''Quezon City Hall'', place_address = ''Kalayaan Ave, Quezon City'',
     place_lat = 14.6460, place_lng = 121.0490\<rparr>,
    \<lparr>place_name = ''Iglesia Ni Cristo (Central)'', place_address = ''Commonwealth Ave, Quezon City'',
     place_lat = 14.6610, place_lng = 121.0540\<rparr>,
    \<lparr>place_name = ''Culiat High School'', place_address = ''Tandang Sora Ave, Quezon City'',
     place_lat = 14.6620, place_lng = 121.0500\<rparr>]"

text \<open>
  The module variable \<^verbatim>\<open>lastCallTime\<close> together with the wall clock that \<^verbatim>\<open>Date.now()\<close>
  reads, both in milliseconds. The clock only moves forward: \<^verbatim>\<open>wait(ms)\<close> advances it
  by \<open>ms\<close> plus whatever the timer is late by, an awaited request by its latency.
\<close>

record World =
  clock :: nat
  lastCallTime :: nat

definition MIN_CALL_INTERVAL :: nat where
  "MIN_CALL_INTERVAL = 1000"

definition wait :: "int \<Rightarrow> nat \<Rightarrow> World \<Rightarrow> World" where
  "wait ms lag w = w\<lparr>clock := clock w + nat ms + lag\<rparr>"

definition await :: "nat \<Rightarrow> World \<Rightarrow> World" where
  "await latency w = w\<lparr>clock := clock w + latency\<rparr>"

text \<open>
  What \<^verbatim>\<open>fetch\<close> followed by \<^verbatim>\<open>response.json()\<close> gives: the request is rejected, the
  status is not ok, the body does not parse, or there is a parsed body.
\<close>

datatype 'a fetched = FetchRejected | HttpNotOk | JsonError | Body 'a

subsection \<open>Place search\<close>

text \<open>
  A feature of the search response: its name, label, longitude and latitude, or a value
  without \<^verbatim>\<open>properties\<close> or \<^verbatim>\<open>geometry.coordinates\<close>, on which the mapping callback
  throws. The body's \<^verbatim>\<open>features\<close> may be absent.
\<close>

datatype SearchFeature = SearchFeature string string real real | SearchMalformed

fun searchResults :: "SearchFeature list \<Rightarrow> error + Place list" where
  "searchResults [] = Inr []"
| "searchResults (SearchMalformed # fs) = Inl TypeError"
| "searchResults (SearchFeature nm lbl lo la # fs) =
     (case searchResults fs of
        Inl e \<Rightarrow> Inl e
      | Inr ps \<Rightarrow>
          Inr (\<lparr>place_name = nm, place_address = lbl, place_lat = la, place_lng = lo\<rparr> # ps))"

text \<open>The \<^verbatim>\<open>try\<close> block of \<^verbatim>\<open>searchPlaces\<close>.\<close>

definition searchAttempt :: "SearchFeature list option fetched \<Rightarrow> error + Place list" where
  "searchAttempt response =
     (case response of
        FetchRejected \<Rightarrow> Inl TypeError
      | HttpNotOk \<Rightarrow> Inl ApiError
      | JsonError \<Rightarrow> Inl SyntaxError
      | Body None \<Rightarrow> Inr []
      | Body (Some fs) \<Rightarrow> searchResults fs)"

definition searchFallback :: "string \<Rightarrow> Place list" where
  "searchFallback query =
     (let lowerQuery = toLowerCase query
      in filter (\<lambda>l. includesStr (toLowerCase (place_name l)) lowerQuery
                   \<or> includesStr (toLowerCase (place_address l)) lowerQuery)
           MOCK_FALLBACK_LOCATIONS)"

definition searchPlaces ::
  "string \<Rightarrow> nat \<Rightarrow> nat \<Rightarrow> SearchFeature list option fetched \<Rightarrow> World
     \<Rightarrow> Place list outcome \<times> World" where
  "searchPlaces query lag latency response w =
     (if query = [] \<or> length query < 3 then (Returns [], w)
      else
        (let now = clock w;
             w1 = (if int now - int (lastCallTime w) < int MIN_CALL_INTERVAL
                   then wait 200 lag w else w);
             w2 = w1\<lparr>lastCallTime := clock w1\<rparr>;
             w3 = await latency w2
         in (case searchAttempt response of
               Inr ps \<Rightarrow> (Returns ps, w3)
             | Inl e \<Rightarrow> (Returns (searchFallback query), w3))))"

subsection \<open>Reverse geocoding\<close>

record GeoProps =
  neighbourhood :: "string option"
  locality :: "string option"
  borough :: "string option"
  county :: "string option"
  region :: "string option"
  props_name :: "string option"
  street :: "string option"
  label :: "string option"

datatype GeoFeature = GeoFeature GeoProps | GeoMalformed

record GeoLabel =
  geo_name :: string
  geo_area :: string

text \<open>\<^verbatim>\<open>a || b || ... || dflt\<close>: the first value that is present and not empty.\<close>

fun firstTruthy :: "string option list \<Rightarrow> string \<Rightarrow> string" where
  "firstTruthy [] dflt = dflt"
| "firstTruthy (None # vs) dflt = firstTruthy vs dflt"
| "firstTruthy (Some v # vs) dflt = (if v = [] then firstTruthy vs dflt else v)"

text \<open>The \<^verbatim>\<open>try\<close> block of \<^verbatim>\<open>reverseGeocode\<close>.\<close>

definition reverseAttempt :: "GeoFeature list option fetched \<Rightarrow> error + GeoLabel" where
  "reverseAttempt response =
     (case response of
        FetchRejected \<Rightarrow> Inl TypeError
      | HttpNotOk \<Rightarrow> Inl ApiError
      | JsonError \<Rightarrow> Inl SyntaxError
      | Body None \<Rightarrow> Inr \<lparr>geo_name = ''Unknown Location'', geo_area = ''Address not found''\<rparr>
      | Body (Some []) \<Rightarrow> Inr \<lparr>geo_name = ''Unknown Location'', geo_area = ''Address not found''\<rparr>
      | Body (Some (GeoMalformed # fs)) \<Rightarrow> Inl TypeError
      | Body (Some (GeoFeature props # fs)) \<Rightarrow>
          Inr \<lparr>geo_name =
                 firstTruthy [neighbourhood props, locality props, borough props, county props,
                              region props] ''Unknown Location'',
               geo_area =
                 firstTruthy [props_name props, street props, label props] ''Unknown Area''\<rparr>)"

definition reverseGeocode ::
  "real \<Rightarrow> real \<Rightarrow> nat \<Rightarrow> nat \<Rightarrow> GeoFeature list option fetched \<Rightarrow> World
     \<Rightarrow> GeoLabel option outcome \<times> World" where
  "reverseGeocode la lo lag latency response w =
     (let now = clock w;
          timeSinceLast = int now - int (lastCallTime w);
          w1 = (if timeSinceLast < 500 then wait 500 lag w else w);
          w2 = w1\<lparr>lastCallTime := clock w1\<rparr>;
          w3 = await latency w2
      in (case reverseAttempt response of
            Inr l \<Rightarrow> (Returns (Some l), w3)
          | Inl e \<Rightarrow>
              (Returns (Some \<lparr>geo_name = ''Location Coordinates'',
                              geo_area = toFixed 4 la @ '', '' @ toFixed 4 lo\<rparr>), w3)))"

subsection \<open>Directions\<close>

record DirStep =
  ds_instruction :: string
  ds_distance :: real
  ds_duration :: real
  ds_way_points :: "int \<times> int"

text \<open>
  The first feature of a directions response: the \<^verbatim>\<open>[lng, lat]\<close> pairs of its line, its
  segments (each a list of steps) if any, and the summary distance (km) and duration (s);
  or a value that lacks one of the parts that the code dereferences.
\<close>

record DirParts =
  dir_coordinates :: "(real \<times> real) list"
  dir_segments :: "DirStep list list option"
  summary_distance :: real
  summary_duration :: real

datatype DirFeature = DirFeature DirParts | DirMalformed

definition dirSteps :: "DirStep list list option \<Rightarrow> RouteStep list" where
  "dirSteps segs =
     (case segs of
        None \<Rightarrow> []
      | Some ss \<Rightarrow>
          map (\<lambda>st. \<lparr>instruction = ds_instruction st, step_type = ''CAR'',
                      distance = ds_distance st, duration = ds_duration st,
                      way_points = ds_way_points st\<rparr>) (concat ss))"

text \<open>The \<^verbatim>\<open>try\<close> block of \<^verbatim>\<open>getDirections\<close>; \<open>now\<close> is the clock when the id is made.\<close>

definition directionsAttempt ::
  "DirFeature list option fetched \<Rightarrow> nat \<Rightarrow> error + CalculatedRoute option" where
  "directionsAttempt response now =
     (case response of
        FetchRejected \<Rightarrow> Inl TypeError
      | HttpNotOk \<Rightarrow> Inl ApiError
      | JsonError \<Rightarrow> Inl SyntaxError
      | Body None \<Rightarrow> Inr None
      | Body (Some []) \<Rightarrow> Inr None
      | Body (Some (DirMalformed # fs)) \<Rightarrow> Inl TypeError
      | Body (Some (DirFeature parts # fs)) \<Rightarrow>
          (let distKm = summary_distance parts;
               durationMin = real_of_int \<lceil>summary_duration parts / 60\<rceil>;
               baseFare = 13;
               fare = baseFare + max 0 ((distKm - 4) * 2)
           in Inr (Some
                \<lparr>route_id = ''route-'' @ string_of_nat now,
                 totalTimeMin = durationMin,
                 totalDistanceKm = parseFixed 2 distKm,
                 totalCost = real_of_int \<lceil>fare\<rceil>,
                 path = map (\<lambda>c. \<lparr>lat = snd c, lng = fst c\<rparr>) (dir_coordinates parts),
                 steps = dirSteps (dir_segments parts),
                 route_type = FASTEST,
                 tags = [''Fare'', ''Distance'', ''Time'']\<rparr>)))"

definition getDirections ::
  "Coordinates \<Rightarrow> Coordinates \<Rightarrow> nat \<Rightarrow> nat \<Rightarrow> DirFeature list option fetched \<Rightarrow> World
     \<Rightarrow> CalculatedRoute option outcome \<times> World" where
  "getDirections start end lag latency response w =
     (let now = clock w;
          timeSinceLast = int now - int (lastCallTime w);
          w1 = (if timeSinceLast < int MIN_CALL_INTERVAL
                then wait (int MIN_CALL_INTERVAL - timeSinceLast) lag w else w);
          w2 = w1\<lparr>lastCallTime := clock w1\<rparr>;
          w3 = await latency w2
      in (case directionsAttempt response (clock w3) of
            Inr r \<Rightarrow> (Returns r, w3)
          | Inl e \<Rightarrow> (Returns None, w3)))"

subsection \<open>Route variants\<close>


section \<open>Checks used by the proofs\<close>

text \<open>
  The total that the assembling loop accumulates for a metric, and the comparison of one
  run of the search with the reference distance: the walk ends at \<open>e\<close>, its weight and
  the accumulated total agree, and both equal the Bellman-Ford distance.
\<close>

definition selectTotal :: "Metric \<Rightarrow> real \<times> real \<times> real \<Rightarrow> real" where
  "selectTotal m tdc =
     (case tdc of (t, d, c) \<Rightarrow> (case m of TIME \<Rightarrow> t | DISTANCE \<Rightarrow> d | COST \<Rightarrow> c))"

definition optimalFor :: "Metric \<Rightarrow> string \<Rightarrow> string \<Rightarrow> bool" where
  "optimalFor m s e =
     (case nodePath s e m of
        Returns p \<Rightarrow>
          (case p of
             [] \<Rightarrow> True
           | p0 # ps \<Rightarrow>
               p0 \<noteq> s \<or>
               (last p = e \<and>
                (case (pathWeight m p, buildSteps p ([], 0, 0, 0)) of
                   (Some w, Inr (ss, tdc)) \<Rightarrow> bellmanFord m s e = Num w \<and> selectTotal m tdc = w
                 | _ \<Rightarrow> False)))
      | _ \<Rightarrow> False)"

text \<open>
  A table of distances is feasible for a source when the source is at 0 and no edge
  leads from a reached node to a node that is unreached or further away than the edge
  allows.
\<close>

definition feasibleTable :: "Metric \<Rightarrow> string \<Rightarrow> (string \<times> extnum) list \<Rightarrow> bool" where
  "feasibleTable m s d =
     (lookupDist d s = Num 0 \<and>
      list_all (\<lambda>(u, v, w).
          case lookupDist d u of
            Infinity \<Rightarrow> True
          | Num x \<Rightarrow> (case lookupDist d v of Infinity \<Rightarrow> False | Num y \<Rightarrow> y \<le> x + w))
        (edgesOf m))"

definition feasible :: "Metric \<Rightarrow> string \<Rightarrow> bool" where
  "feasible m s = feasibleTable m s (bfTable m s)"


text \<open>
  Reading a decimal numeral back, the inverse of printing it; the id of a returned
  itinerary; and the itinerary from \<^verbatim>\<open>ts_palengke\<close> to \<^verbatim>\<open>technohub\<close> under \<^verbatim>\<open>TIME\<close> at a
  given clock reading.
\<close>

definition digit_val :: "char \<Rightarrow> nat" where
  "digit_val c = length (takeWhile (\<lambda>x. x \<noteq> c) ''0123456789'')"

definition nat_of_string :: "string \<Rightarrow> nat" where
  "nat_of_string s = foldl (\<lambda>a c. 10 * a + digit_val c) 0 s"

definition idOf :: "CalculatedRoute option outcome \<Rightarrow> string option" where
  "idOf res = (case res of Returns (Some r) \<Rightarrow> Some (route_id r) | _ \<Rightarrow> None)"

definition palengkeRoute :: "nat \<Rightarrow> CalculatedRoute" where
  "palengkeRoute now =
     \<lparr>route_id = ''route-'' @ string_of_nat now,
      totalTimeMin = 25, totalDistanceKm = 4.5, totalCost = 15,
      path = [\<lparr>lat = 14.6741, lng = 121.0359\<rparr>, \<lparr>lat = 14.6680, lng = 121.0550\<rparr>,
              \<lparr>lat = 14.6575, lng = 121.0580\<rparr>],
      steps =
        [\<lparr>instruction = ''Ride JEEP to Commonwealth Avenue'', step_type = ''JEEP'',
          distance = 3000, duration = 1200, way_points = (0, 0)\<rparr>,
         \<lparr>instruction = ''Walk to UP Ayala Technohub'', step_type = ''WALK'',
          distance = 1500, duration = 300, way_points = (0, 0)\<rparr>],
      route_type = FASTEST, tags = [''Fastest'']\<rparr>"

section \<open>Optimality of the computed route\<close>

lemma optimal_TIME:
  "list_all (\<lambda>s. list_all (\<lambda>e. s = e \<or> optimalFor TIME s e) (map fst GRAPH_NODES))
     (map fst GRAPH_NODES)"
  by code_simp

lemma optimal_DISTANCE:
  "list_all (\<lambda>s. list_all (\<lambda>e. s = e \<or> optimalFor DISTANCE s e) (map fst GRAPH_NODES))
     (map fst GRAPH_NODES)"
  by code_simp

lemma optimal_COST:
  "list_all (\<lambda>s. list_all (\<lambda>e. s = e \<or> optimalFor COST s e) (map fst GRAPH_NODES))
     (map fst GRAPH_NODES)"
  by code_simp

lemma findNearestNode_range: "findNearestNode la lo \<in> Some ` set (map fst GRAPH_NODES)"
  by (simp add: findNearestNode_def GRAPH_NODES_def nearestStep_def Let_def)

lemma optimalFor_resolved:
  assumes "findNearestNode la lo = Some s" "findNearestNode la' lo' = Some e" "s \<noteq> e"
  shows "optimalFor m s e"
proof -
  have s: "s \<in> set (map fst GRAPH_NODES)"
    using findNearestNode_range [of la lo] assms(1) by auto
  have e: "e \<in> set (map fst GRAPH_NODES)"
    using findNearestNode_range [of la' lo'] assms(2) by auto
  have "list_all (\<lambda>s. list_all (\<lambda>e. s = e \<or> optimalFor m s e) (map fst GRAPH_NODES))
          (map fst GRAPH_NODES)"
    by (cases m) (simp_all only: optimal_TIME optimal_DISTANCE optimal_COST)
  with s e assms(3) show ?thesis
    unfolding list_all_iff by blast
qed

text \<open>
  The Bellman-Ford distance is a lower bound for the weight of every walk that leaves
  the source: it is the true shortest-path distance.
\<close>

lemma feasible_TIME: "list_all (feasible TIME) (map fst GRAPH_NODES)"
  by code_simp

lemma feasible_DISTANCE: "list_all (feasible DISTANCE) (map fst GRAPH_NODES)"
  by code_simp

lemma feasible_COST: "list_all (feasible COST) (map fst GRAPH_NODES)"
  by code_simp

lemma edge_of_find:
  assumes "graphNode u = Some node"
    and "find (\<lambda>c. targetId c = v) (connections node) = Some c"
  shows "(u, v, weightOf m c) \<in> set (edgesOf m)"
proof -
  have un: "(u, node) \<in> set GRAPH_NODES"
    using assms(1) unfolding graphNode_def by (rule map_of_SomeD)
  from assms(2) have c: "c \<in> set (connections node)" and t: "targetId c = v"
    by (auto simp: find_Some_iff)
  from c t have "(u, v, weightOf m c) \<in> set (map (\<lambda>c. (u, targetId c, weightOf m c)) (connections node))"
    by auto
  with un show ?thesis
    unfolding edgesOf_def by (auto intro!: bexI [of _ "(u, node)"])
qed

lemma walk_lower_bound:
  assumes "feasible m s"
  shows "pathWeight m (u # p) = Some w \<Longrightarrow> bellmanFord m s u = Num x
     \<Longrightarrow> \<exists>y. bellmanFord m s (last (u # p)) = Num y \<and> y \<le> x + w"
proof (induction p arbitrary: u w x)
  case Nil
  then show ?case by simp
next
  case (Cons v p)
  from Cons.prems(1) obtain node c w' where
    n: "graphNode u = Some node" and
    f: "find (\<lambda>c. targetId c = v) (connections node) = Some c" and
    w': "pathWeight m (v # p) = Some w'" and
    w: "w = weightOf m c + w'"
    by (auto split: option.splits)
  have edge: "(u, v, weightOf m c) \<in> set (edgesOf m)"
    using edge_of_find [OF n f] .
  from assms have all:
    "\<forall>e \<in> set (edgesOf m). case e of (u, v, w) \<Rightarrow>
        (case lookupDist (bfTable m s) u of
           Infinity \<Rightarrow> True
         | Num x \<Rightarrow>
             (case lookupDist (bfTable m s) v of Infinity \<Rightarrow> False | Num y \<Rightarrow> y \<le> x + w))"
    by (simp add: feasible_def feasibleTable_def list_all_iff)
  from bspec [OF all edge] have
    "case lookupDist (bfTable m s) u of
       Infinity \<Rightarrow> True
     | Num x \<Rightarrow>
         (case lookupDist (bfTable m s) v of
            Infinity \<Rightarrow> False
          | Num y \<Rightarrow> y \<le> x + weightOf m c)"
    by simp
  with Cons.prems(2) obtain y where
    y: "bellmanFord m s v = Num y" "y \<le> x + weightOf m c"
    by (cases "lookupDist (bfTable m s) v") (simp_all add: bellmanFord_def)
  from Cons.IH [OF w' y(1)] obtain z where
    "bellmanFord m s (last (v # p)) = Num z" "z \<le> y + w'"
    by blast
  with y(2) w show ?case by auto
qed

lemma bellmanFord_least:
  assumes s: "s \<in> set (map fst GRAPH_NODES)"
    and p: "pathWeight m (s # q) = Some w"
  shows "\<exists>y. bellmanFord m s (last (s # q)) = Num y \<and> y \<le> w"
proof -
  have "list_all (feasible m) (map fst GRAPH_NODES)"
    by (cases m) (simp_all only: feasible_TIME feasible_DISTANCE feasible_COST)
  with s have f: "feasible m s"
    unfolding list_all_iff by blast
  then have "bellmanFord m s s = Num 0"
    by (simp add: feasible_def feasibleTable_def bellmanFord_def)
  from walk_lower_bound [OF f p this] show ?thesis by simp
qed

lemma findNearestNode_palengke: "findNearestNode 14.6741 121.0359 = Some ''ts_palengke''"
  by (simp add: findNearestNode_def GRAPH_NODES_def nearestStep_def power2_eq_square)

lemma findNearestNode_technohub: "findNearestNode 14.6575 121.0580 = Some ''technohub''"
  by (simp add: findNearestNode_def GRAPH_NODES_def nearestStep_def power2_eq_square)

lemma nodePath_palengke_technohub:
  "nodePath ''ts_palengke'' ''technohub'' TIME = Returns [''ts_palengke'', ''comm_ave'', ''technohub'']"
  by code_simp

lemma assemble_palengke_technohub:
  "assemble [''ts_palengke'', ''comm_ave'', ''technohub''] TIME now =
     Returns (Some
       \<lparr>route_id = ''route-'' @ string_of_nat now,
        totalTimeMin = 25, totalDistanceKm = 4.5, totalCost = 15,
        path = [\<lparr>lat = 14.6741, lng = 121.0359\<rparr>, \<lparr>lat = 14.6680, lng = 121.0550\<rparr>,
                \<lparr>lat = 14.6575, lng = 121.0580\<rparr>],
        steps =
          [\<lparr>instruction = ''Ride JEEP to Commonwealth Avenue'', step_type = ''JEEP'',
            distance = 3000, duration = 1200, way_points = (0, 0)\<rparr>,
           \<lparr>instruction = ''Walk to UP Ayala Technohub'', step_type = ''WALK'',
            distance = 1500, duration = 300, way_points = (0, 0)\<rparr>],
        route_type = FASTEST, tags = [''Fastest'']\<rparr>)"
  by (simp add: assemble_def graphNode_def GRAPH_NODES_def stepOf_def)

lemma route_palengke_technohub:
  assumes "findNearestNode (lat start) (lng start) = Some ''ts_palengke''"
    and "findNearestNode (lat end) (lng end) = Some ''technohub''"
  shows "calculateRoute start end TIME now =
     Returns (Some
       \<lparr>route_id = ''route-'' @ string_of_nat now,
        totalTimeMin = 25, totalDistanceKm = 4.5, totalCost = 15,
        path = [\<lparr>lat = 14.6741, lng = 121.0359\<rparr>, \<lparr>lat = 14.6680, lng = 121.0550\<rparr>,
                \<lparr>lat = 14.6575, lng = 121.0580\<rparr>],
        steps =
          [\<lparr>instruction = ''Ride JEEP to Commonwealth Avenue'', step_type = ''JEEP'',
            distance = 3000, duration = 1200, way_points = (0, 0)\<rparr>,
           \<lparr>instruction = ''Walk to UP Ayala Technohub'', step_type = ''WALK'',
            distance = 1500, duration = 300, way_points = (0, 0)\<rparr>],
        route_type = FASTEST, tags = [''Fastest'']\<rparr>)"
  using assms
  by (simp add: calculateRoute_def falsy_def nodePath_palengke_technohub
        assemble_palengke_technohub)

text \<open>
  C1. Whenever \<^verbatim>\<open>calculateRoute\<close> returns an itinerary, both endpoints resolved to graph
  nodes \<open>s\<close> and \<open>e\<close>, the search produced a walk from \<open>s\<close> to \<open>e\<close> whose coordinates are
  the itinerary's path, and the sum of the metric's edge weights along that walk, which
  is the itinerary's total for the metric, equals the shortest-path distance from \<open>s\<close> to
  \<open>e\<close> that Bellman-Ford computes on the graph; no walk from \<open>s\<close> to \<open>e\<close> weighs less.
\<close>

theorem calculateRoute_optimal:
  assumes "calculateRoute start end metric now = Returns (Some r)"
  shows "\<exists>s e p. findNearestNode (lat start) (lng start) = Some s
           \<and> findNearestNode (lat end) (lng end) = Some e
           \<and> nodePath s e metric = Returns p
           \<and> p \<noteq> [] \<and> hd p = s \<and> last p = e
           \<and> pathCoords p = Inr (path r)
           \<and> pathWeight metric p = Some (metricTotal metric r)
           \<and> bellmanFord metric s e = Num (metricTotal metric r)
           \<and> (\<forall>q w. pathWeight metric (s # q) = Some w \<and> last (s # q) = e
                  \<longrightarrow> metricTotal metric r \<le> w)"
proof -
  from assms obtain s e p where
    s: "findNearestNode (lat start) (lng start) = Some s" and
    e: "findNearestNode (lat end) (lng end) = Some e" and
    ne: "s \<noteq> e" and
    p: "nodePath s e metric = Returns p" and
    hd: "p \<noteq> []" "hd p = s" and
    r: "assemble p metric now = Returns (Some r)"
    by (auto simp: calculateRoute_def Let_def falsy_def
             split: option.splits outcome.splits list.splits if_splits)
  have opt: "optimalFor metric s e"
    using optimalFor_resolved [OF s e ne] .
  from r obtain ss tdc where
    pc: "pathCoords p = Inr (path r)" and
    bs: "buildSteps p ([], 0, 0, 0) = Inr (ss, tdc)" and
    tot: "selectTotal metric tdc = metricTotal metric r"
    by (cases metric) (auto simp: assemble_def selectTotal_def split: sum.splits prod.splits)
  from opt p hd bs tot have best:
    "last p = e \<and> pathWeight metric p = Some (metricTotal metric r)
      \<and> bellmanFord metric s e = Num (metricTotal metric r)"
    by (cases p) (auto simp: optimalFor_def split: option.splits)
  have sn: "s \<in> set (map fst GRAPH_NODES)"
    using findNearestNode_range [of "lat start" "lng start"] s by auto
  have least: "metricTotal metric r \<le> w"
    if "pathWeight metric (s # q) = Some w \<and> last (s # q) = e" for q w
  proof -
    from that bellmanFord_least [OF sn, of metric q w] obtain y where
      "bellmanFord metric s e = Num y" "y \<le> w"
      by auto
    with best show ?thesis by simp
  qed
  from s e p hd pc best least show ?thesis by blast
qed

theorem calculateRoute_optimal_witness:
  "calculateRoute \<lparr>lat = 14.6741, lng = 121.0359\<rparr> \<lparr>lat = 14.6575, lng = 121.0580\<rparr> TIME 0
     = Returns (Some
       \<lparr>route_id = ''route-0'',
        totalTimeMin = 25, totalDistanceKm = 4.5, totalCost = 15,
        path = [\<lparr>lat = 14.6741, lng = 121.0359\<rparr>, \<lparr>lat = 14.6680, lng = 121.0550\<rparr>,
                \<lparr>lat = 14.6575, lng = 121.0580\<rparr>],
        steps =
          [\<lparr>instruction = ''Ride JEEP to Commonwealth Avenue'', step_type = ''JEEP'',
            distance = 3000, duration = 1200, way_points = (0, 0)\<rparr>,
           \<lparr>instruction = ''Walk to UP Ayala Technohub'', step_type = ''WALK'',
            distance = 1500, duration = 300, way_points = (0, 0)\<rparr>],
        route_type = FASTEST, tags = [''Fastest'']\<rparr>)
   \<and> pathWeight TIME [''ts_palengke'', ''comm_ave'', ''technohub''] = Some 25
   \<and> bellmanFord TIME ''ts_palengke'' ''technohub'' = Num 25"
proof -
  let ?r = "\<lparr>route_id = ''route-0'',
        totalTimeMin = 25, totalDistanceKm = 4.5, totalCost = 15,
        path = [\<lparr>lat = 14.6741, lng = 121.0359\<rparr>, \<lparr>lat = 14.6680, lng = 121.0550\<rparr>,
                \<lparr>lat = 14.6575, lng = 121.0580\<rparr>],
        steps =
          [\<lparr>instruction = ''Ride JEEP to Commonwealth Avenue'', step_type = ''JEEP'',
            distance = 3000, duration = 1200, way_points = (0, 0)\<rparr>,
           \<lparr>instruction = ''Walk to UP Ayala Technohub'', step_type = ''WALK'',
            distance = 1500, duration = 300, way_points = (0, 0)\<rparr>],
        route_type = FASTEST, tags = [''Fastest'']\<rparr>"
  have run: "calculateRoute \<lparr>lat = 14.6741, lng = 121.0359\<rparr> \<lparr>lat = 14.6575, lng = 121.0580\<rparr>
               TIME 0 = Returns (Some ?r)"
    using route_palengke_technohub
            [of "\<lparr>lat = 14.6741, lng = 121.0359\<rparr>" "\<lparr>lat = 14.6575, lng = 121.0580\<rparr>" 0]
          findNearestNode_palengke findNearestNode_technohub
    by (simp add: string_of_nat.simps digit_char_def)
  from calculateRoute_optimal [OF run] obtain s e p where
    "findNearestNode 14.6741 121.0359 = Some s"
    "findNearestNode 14.6575 121.0580 = Some e"
    "nodePath s e TIME = Returns p"
    "pathWeight TIME p = Some (metricTotal TIME ?r)"
    "bellmanFord TIME s e = Num (metricTotal TIME ?r)"
    by auto
  then have "pathWeight TIME [''ts_palengke'', ''comm_ave'', ''technohub''] = Some 25
    \<and> bellmanFord TIME ''ts_palengke'' ''technohub'' = Num 25"
    using findNearestNode_palengke findNearestNode_technohub
    by (simp add: nodePath_palengke_technohub)
  with run show ?thesis by simp
qed

section \<open>The scenario from the market to the technology hub\<close>

text \<open>
  C2 (as stated, refuted). From the coordinates of \<^verbatim>\<open>ts_palengke\<close> to those of
  \<^verbatim>\<open>technohub\<close> under \<^verbatim>\<open>TIME\<close>, the route runs over \<^verbatim>\<open>comm_ave\<close> and takes 25 minutes
  at a cost of 15, not over \<^verbatim>\<open>visayas_ave\<close> with 40 minutes and a cost of 33. The walk
  over \<^verbatim>\<open>visayas_ave\<close> exists and has exactly those totals, but it is not the fastest.
\<close>

theorem calculateRoute_scenario_counterexample:
  "calculateRoute \<lparr>lat = 14.6741, lng = 121.0359\<rparr> \<lparr>lat = 14.6575, lng = 121.0580\<rparr> TIME
       1730592000123
     = Returns (Some
       \<lparr>route_id = ''route-1730592000123'',
        totalTimeMin = 25, totalDistanceKm = 4.5, totalCost = 15,
        path = [\<lparr>lat = 14.6741, lng = 121.0359\<rparr>, \<lparr>lat = 14.6680, lng = 121.0550\<rparr>,
                \<lparr>lat = 14.6575, lng = 121.0580\<rparr>],
        steps =
          [\<lparr>instruction = ''Ride JEEP to Commonwealth Avenue'', step_type = ''JEEP'',
            distance = 3000, duration = 1200, way_points = (0, 0)\<rparr>,
           \<lparr>instruction = ''Walk to UP Ayala Technohub'', step_type = ''WALK'',
            distance = 1500, duration = 300, way_points = (0, 0)\<rparr>],
        route_type = FASTEST, tags = [''Fastest'']\<rparr>)
   \<and> pathWeight TIME [''ts_palengke'', ''visayas_ave'', ''technohub''] = Some 40
   \<and> pathWeight COST [''ts_palengke'', ''visayas_ave'', ''technohub''] = Some 33
   \<and> pathWeight TIME [''ts_palengke'', ''comm_ave'', ''technohub''] = Some 25"
proof -
  have "calculateRoute \<lparr>lat = 14.6741, lng = 121.0359\<rparr> \<lparr>lat = 14.6575, lng = 121.0580\<rparr> TIME
       1730592000123
     = Returns (Some
       \<lparr>route_id = ''route-1730592000123'',
        totalTimeMin = 25, totalDistanceKm = 4.5, totalCost = 15,
        path = [\<lparr>lat = 14.6741, lng = 121.0359\<rparr>, \<lparr>lat = 14.6680, lng = 121.0550\<rparr>,
                \<lparr>lat = 14.6575, lng = 121.0580\<rparr>],
        steps =
          [\<lparr>instruction = ''Ride JEEP to Commonwealth Avenue'', step_type = ''JEEP'',
            distance = 3000, duration = 1200, way_points = (0, 0)\<rparr>,
           \<lparr>instruction = ''Walk to UP Ayala Technohub'', step_type = ''WALK'',
            distance = 1500, duration = 300, way_points = (0, 0)\<rparr>],
        route_type = FASTEST, tags = [''Fastest'']\<rparr>)"
    using route_palengke_technohub
            [of "\<lparr>lat = 14.6741, lng = 121.0359\<rparr>" "\<lparr>lat = 14.6575, lng = 121.0580\<rparr>"
                1730592000123]
          findNearestNode_palengke findNearestNode_technohub
    by (simp add: string_of_nat.simps digit_char_def)
  moreover have "pathWeight TIME [''ts_palengke'', ''visayas_ave'', ''technohub''] = Some 40"
    by (simp add: graphNode_def GRAPH_NODES_def)
  moreover have "pathWeight COST [''ts_palengke'', ''visayas_ave'', ''technohub''] = Some 33"
    by (simp add: graphNode_def GRAPH_NODES_def)
  moreover have "pathWeight TIME [''ts_palengke'', ''comm_ave'', ''technohub''] = Some 25"
    by (simp add: graphNode_def GRAPH_NODES_def)
  ultimately show ?thesis by (simp only: simp_thms)
qed

text \<open>
  C2 (amended). With metric \<^verbatim>\<open>TIME\<close>, from any point whose nearest node is
  \<^verbatim>\<open>ts_palengke\<close> to any point whose nearest node is \<^verbatim>\<open>technohub\<close>, \<^verbatim>\<open>calculateRoute\<close>
  returns the itinerary along \<^verbatim>\<open>ts_palengke\<close>, \<^verbatim>\<open>comm_ave\<close>, \<^verbatim>\<open>technohub\<close>, with
  \<^verbatim>\<open>totalTimeMin = 25\<close>, \<^verbatim>\<open>totalDistanceKm = 4.5\<close> and \<^verbatim>\<open>totalCost = 15\<close>.
\<close>

theorem calculateRoute_scenario:
  assumes "findNearestNode (lat start) (lng start) = Some ''ts_palengke''"
    and "findNearestNode (lat end) (lng end) = Some ''technohub''"
  shows "calculateRoute start end TIME now =
     Returns (Some
       \<lparr>route_id = ''route-'' @ string_of_nat now,
        totalTimeMin = 25, totalDistanceKm = 4.5, totalCost = 15,
        path = [\<lparr>lat = 14.6741, lng = 121.0359\<rparr>, \<lparr>lat = 14.6680, lng = 121.0550\<rparr>,
                \<lparr>lat = 14.6575, lng = 121.0580\<rparr>],
        steps =
          [\<lparr>instruction = ''Ride JEEP to Commonwealth Avenue'', step_type = ''JEEP'',
            distance = 3000, duration = 1200, way_points = (0, 0)\<rparr>,
           \<lparr>instruction = ''Walk to UP Ayala Technohub'', step_type = ''WALK'',
            distance = 1500, duration = 300, way_points = (0, 0)\<rparr>],
        route_type = FASTEST, tags = [''Fastest'']\<rparr>)"
  using assms by (rule route_palengke_technohub)

theorem calculateRoute_scenario_witness:
  "findNearestNode 14.6740 121.0360 = Some ''ts_palengke''
   \<and> findNearestNode 14.6576 121.0579 = Some ''technohub''
   \<and> calculateRoute \<lparr>lat = 14.6740, lng = 121.0360\<rparr> \<lparr>lat = 14.6576, lng = 121.0579\<rparr> TIME 42
     = Returns (Some
       \<lparr>route_id = ''route-42'',
        totalTimeMin = 25, totalDistanceKm = 4.5, totalCost = 15,
        path = [\<lparr>lat = 14.6741, lng = 121.0359\<rparr>, \<lparr>lat = 14.6680, lng = 121.0550\<rparr>,
                \<lparr>lat = 14.6575, lng = 121.0580\<rparr>],
        steps =
          [\<lparr>instruction = ''Ride JEEP to Commonwealth Avenue'', step_type = ''JEEP'',
            distance = 3000, duration = 1200, way_points = (0, 0)\<rparr>,
           \<lparr>instruction = ''Walk to UP Ayala Technohub'', step_type = ''WALK'',
            distance = 1500, duration = 300, way_points = (0, 0)\<rparr>],
        route_type = FASTEST, tags = [''Fastest'']\<rparr>)"
proof -
  have a: "findNearestNode 14.6740 121.0360 = Some ''ts_palengke''"
    by (simp add: findNearestNode_def GRAPH_NODES_def nearestStep_def power2_eq_square)
  have b: "findNearestNode 14.6576 121.0579 = Some ''technohub''"
    by (simp add: findNearestNode_def GRAPH_NODES_def nearestStep_def power2_eq_square)
  show ?thesis
    using calculateRoute_scenario
            [of "\<lparr>lat = 14.6740, lng = 121.0360\<rparr>" "\<lparr>lat = 14.6576, lng = 121.0579\<rparr>" 42]
          a b
    by (simp add: string_of_nat.simps digit_char_def)
qed

section \<open>Requests without a route\<close>



section \<open>Route variants\<close>







section \<open>The fare model of live directions\<close>

text \<open>
  C7. A \<^verbatim>\<open>getDirections\<close> call whose response carries a well-formed first feature
  returns an itinerary of category \<^verbatim>\<open>FASTEST\<close> with \<^verbatim>\<open>totalTimeMin = ceil(durationSec /
  60)\<close> and \<^verbatim>\<open>totalCost = ceil(13 + max(0, (distKm - 4) * 2))\<close>; a distance of 6.0 km and
  a duration of 900 s give 15 minutes and a cost of 17.
\<close>

theorem getDirections_fare:
  "\<exists>r. fst (getDirections start end lag latency (Body (Some (DirFeature parts # fs))) w)
         = Returns (Some r)
     \<and> route_type r = FASTEST
     \<and> totalTimeMin r = real_of_int \<lceil>summary_duration parts / 60\<rceil>
     \<and> totalCost r = real_of_int \<lceil>13 + max 0 ((summary_distance parts - 4) * 2)\<rceil>
     \<and> (summary_distance parts = 6.0 \<and> summary_duration parts = 900
          \<longrightarrow> totalTimeMin r = 15 \<and> totalCost r = 17)"
  by (simp add: getDirections_def directionsAttempt_def Let_def)

theorem getDirections_fare_witness:
  "\<exists>r. fst (getDirections \<lparr>lat = 14.6741, lng = 121.0359\<rparr> \<lparr>lat = 14.6575, lng = 121.0580\<rparr> 0 120
            (Body (Some [DirFeature \<lparr>dir_coordinates = [(121.0359, 14.6741), (121.0580, 14.6575)],
                                    dir_segments = None, summary_distance = 6.0,
                                    summary_duration = 900\<rparr>]))
            \<lparr>clock = 5000, lastCallTime = 0\<rparr>)
         = Returns (Some r)
     \<and> route_type r = FASTEST \<and> totalTimeMin r = 15 \<and> totalCost r = 17"
proof -
  let ?parts = "\<lparr>dir_coordinates = [(121.0359, 14.6741), (121.0580, 14.6575)],
                 dir_segments = None, summary_distance = 6.0, summary_duration = 900\<rparr>"
  from getDirections_fare
         [of "\<lparr>lat = 14.6741, lng = 121.0359\<rparr>" "\<lparr>lat = 14.6575, lng = 121.0580\<rparr>" 0 120
             ?parts "[]" "\<lparr>clock = 5000, lastCallTime = 0\<rparr>"]
  obtain r where
    "fst (getDirections \<lparr>lat = 14.6741, lng = 121.0359\<rparr> \<lparr>lat = 14.6575, lng = 121.0580\<rparr> 0 120
            (Body (Some [DirFeature ?parts])) \<lparr>clock = 5000, lastCallTime = 0\<rparr>)
       = Returns (Some r)"
    "route_type r = FASTEST"
    "summary_distance ?parts = 6.0 \<and> summary_duration ?parts = 900
       \<longrightarrow> totalTimeMin r = 15 \<and> totalCost r = 17"
    by blast
  then show ?thesis by auto
qed

section \<open>Reverse geocoding always answers\<close>

lemma firstTruthy_nonempty: "dflt \<noteq> [] \<Longrightarrow> firstTruthy vs dflt \<noteq> []"
  by (induction vs dflt rule: firstTruthy.induct) auto

text \<open>
  C10. Whatever the coordinate and whatever the provider does (a response with a
  feature, a response with no or an empty feature list, a rejected request, a bad
  status, a body that does not parse), \<^verbatim>\<open>reverseGeocode\<close> returns a value, never
  \<^verbatim>\<open>null\<close>, whose name and area are not empty.
\<close>

theorem reverseGeocode_total:
  "\<exists>l. fst (reverseGeocode la lo lag latency response w) = Returns (Some l)
     \<and> geo_name l \<noteq> [] \<and> geo_area l \<noteq> []"
proof (cases "reverseAttempt response")
  case (Inl e)
  then show ?thesis
    by (simp add: reverseGeocode_def Let_def)
next
  case (Inr l)
  have "geo_name l \<noteq> [] \<and> geo_area l \<noteq> []"
  proof (cases response)
    case (Body b)
    show ?thesis
    proof (cases b)
      case None
      with Body Inr show ?thesis by (auto simp: reverseAttempt_def)
    next
      case (Some fs)
      show ?thesis
      proof (cases fs)
        case Nil
        with Body Some Inr show ?thesis by (auto simp: reverseAttempt_def)
      next
        case (Cons f fs')
        with Body Some Inr show ?thesis
          by (cases f) (auto simp: reverseAttempt_def firstTruthy_nonempty)
      qed
    qed
  qed (use Inr in \<open>simp_all add: reverseAttempt_def\<close>)
  with Inr show ?thesis
    by (simp add: reverseGeocode_def Let_def)
qed

section \<open>Fallback when the provider fails\<close>

text \<open>What \<^verbatim>\<open>includes\<close> decides: the needle occurs somewhere in the hay.\<close>

lemma startsWith_iff: "startsWith hay needle \<longleftrightarrow> (\<exists>post. hay = needle @ post)"
  by (induction hay needle rule: startsWith.induct) auto

lemma includesStr_iff: "includesStr hay needle \<longleftrightarrow> (\<exists>pre post. hay = pre @ needle @ post)"
proof (induction hay)
  case Nil
  then show ?case by simp
next
  case (Cons h hs)
  show ?case
  proof
    assume "includesStr (h # hs) needle"
    then consider "startsWith (h # hs) needle" | "includesStr hs needle" by auto
    then show "\<exists>pre post. h # hs = pre @ needle @ post"
    proof cases
      case 1
      then obtain post where "h # hs = needle @ post"
        unfolding startsWith_iff by blast
      then have "h # hs = [] @ needle @ post" by simp
      then show ?thesis by blast
    next
      case 2
      with Cons.IH obtain pre post where "hs = pre @ needle @ post" by blast
      then have "h # hs = (h # pre) @ needle @ post" by simp
      then show ?thesis by blast
    qed
  next
    assume "\<exists>pre post. h # hs = pre @ needle @ post"
    then obtain pre post where eq: "h # hs = pre @ needle @ post" by blast
    show "includesStr (h # hs) needle"
    proof (cases pre)
      case Nil
      with eq have "startsWith (h # hs) needle"
        unfolding startsWith_iff by auto
      then show ?thesis by simp
    next
      case (Cons a pre')
      with eq have "hs = pre' @ needle @ post" by simp
      with Cons.IH have "includesStr hs needle" by blast
      then show ?thesis by simp
    qed
  qed
qed

lemma lower_sm_city: "toLowerCase ''SM City'' = ''sm city''"
  by code_simp






section \<open>Itinerary ids\<close>

lemma digit_val_digit_char: "d < 10 \<Longrightarrow> digit_val (digit_char d) = d"
proof -
  assume "d < 10"
  then have "d = 0 \<or> d = 1 \<or> d = 2 \<or> d = 3 \<or> d = 4 \<or> d = 5 \<or> d = 6 \<or> d = 7 \<or> d = 8 \<or> d = 9"
    by arith
  then show ?thesis
    by (elim disjE) (simp_all add: digit_char_def digit_val_def)
qed

lemma nat_of_string_append:
  "nat_of_string (s @ [c]) = 10 * nat_of_string s + digit_val c"
  by (simp add: nat_of_string_def)

lemma nat_of_string_of_nat: "nat_of_string (string_of_nat n) = n"
proof (induction n rule: string_of_nat.induct)
  case (1 n)
  show ?case
  proof (cases "n < 10")
    case True
    then show ?thesis
      by (simp add: string_of_nat.simps [of n] nat_of_string_def digit_val_digit_char)
  next
    case False
    with "1" have "nat_of_string (string_of_nat (n div 10)) = n div 10" by simp
    with False show ?thesis
      by (simp add: string_of_nat.simps [of n] nat_of_string_append digit_val_digit_char)
  qed
qed

lemma string_of_nat_inj: "string_of_nat a = string_of_nat b \<longleftrightarrow> a = b"
  by (metis nat_of_string_of_nat)

lemma calculateRoute_id:
  "calculateRoute start end metric now = Returns (Some r)
     \<Longrightarrow> route_id r = ''route-'' @ string_of_nat now"
  by (auto simp: calculateRoute_def assemble_def Let_def
           split: if_splits option.splits outcome.splits list.splits sum.splits prod.splits)

lemma getDirections_id:
  "fst (getDirections start end lag latency response w) = Returns (Some r)
     \<Longrightarrow> route_id r
           = ''route-'' @ string_of_nat (clock (snd (getDirections start end lag latency response w)))"
  by (auto simp: getDirections_def directionsAttempt_def Let_def
           split: sum.splits fetched.splits option.splits list.splits DirFeature.splits)

lemma route_technohub_palengke:
  "idOf (calculateRoute \<lparr>lat = 14.6575, lng = 121.0580\<rparr> \<lparr>lat = 14.6741, lng = 121.0359\<rparr>
           DISTANCE now) = Some (''route-'' @ string_of_nat now)"
proof -
  have p: "nodePath ''technohub'' ''ts_palengke'' DISTANCE
             = Returns [''technohub'', ''visayas_ave'', ''ts_palengke'']"
    by code_simp
  have "\<exists>r. assemble [''technohub'', ''visayas_ave'', ''ts_palengke''] DISTANCE now
               = Returns (Some r) \<and> route_id r = ''route-'' @ string_of_nat now"
    by (simp add: assemble_def graphNode_def GRAPH_NODES_def)
  then show ?thesis
    using findNearestNode_palengke findNearestNode_technohub
    by (auto simp: calculateRoute_def falsy_def p idOf_def)
qed

text \<open>
  C9 (as stated, refuted). Two different computations, from the market to the technology
  hub by time and back by distance, that read the same millisecond from the clock
  return itineraries with the same id; so does a \<^verbatim>\<open>getDirections\<close> call that finishes in
  that millisecond.
\<close>

theorem route_id_counterexample:
  "idOf (calculateRoute \<lparr>lat = 14.6741, lng = 121.0359\<rparr> \<lparr>lat = 14.6575, lng = 121.0580\<rparr> TIME
           1730592000123) = Some ''route-1730592000123''
   \<and> idOf (calculateRoute \<lparr>lat = 14.6575, lng = 121.0580\<rparr> \<lparr>lat = 14.6741, lng = 121.0359\<rparr>
             DISTANCE 1730592000123) = Some ''route-1730592000123''
   \<and> idOf (fst (getDirections \<lparr>lat = 14.6741, lng = 121.0359\<rparr> \<lparr>lat = 14.6575, lng = 121.0580\<rparr>
                  0 123
                  (Body (Some [DirFeature \<lparr>dir_coordinates = [(121.0359, 14.6741), (121.0580, 14.6575)],
                                           dir_segments = None, summary_distance = 6.0,
                                           summary_duration = 900\<rparr>]))
                  \<lparr>clock = 1730592000000, lastCallTime = 0\<rparr>)) = Some ''route-1730592000123''"
proof -
  have n: "string_of_nat 1730592000123 = ''1730592000123''"
    by (simp add: string_of_nat.simps digit_char_def)
  have a: "idOf (calculateRoute \<lparr>lat = 14.6741, lng = 121.0359\<rparr> \<lparr>lat = 14.6575, lng = 121.0580\<rparr>
             TIME 1730592000123) = Some ''route-1730592000123''"
    using route_palengke_technohub
            [of "\<lparr>lat = 14.6741, lng = 121.0359\<rparr>" "\<lparr>lat = 14.6575, lng = 121.0580\<rparr>"
                1730592000123]
          findNearestNode_palengke findNearestNode_technohub n
    by (simp add: idOf_def)
  have b: "idOf (calculateRoute \<lparr>lat = 14.6575, lng = 121.0580\<rparr> \<lparr>lat = 14.6741, lng = 121.0359\<rparr>
             DISTANCE 1730592000123) = Some ''route-1730592000123''"
    using route_technohub_palengke [of 1730592000123] n by simp
  have c: "idOf (fst (getDirections \<lparr>lat = 14.6741, lng = 121.0359\<rparr> \<lparr>lat = 14.6575, lng = 121.0580\<rparr>
                  0 123
                  (Body (Some [DirFeature \<lparr>dir_coordinates = [(121.0359, 14.6741), (121.0580, 14.6575)],
                                           dir_segments = None, summary_distance = 6.0,
                                           summary_duration = 900\<rparr>]))
                  \<lparr>clock = 1730592000000, lastCallTime = 0\<rparr>)) = Some ''route-1730592000123''"
    using n
    by (simp add: getDirections_def directionsAttempt_def Let_def idOf_def await_def
          MIN_CALL_INTERVAL_def)
  from a b c show ?thesis by (simp only: simp_thms)
qed

text \<open>
  C9 (amended). The id of an itinerary is \<^verbatim>\<open>route-\<close> followed by the millisecond that
  the computation read from the clock. Two itineraries, whether built by
  \<^verbatim>\<open>calculateRoute\<close> or by \<^verbatim>\<open>getDirections\<close>, have different ids exactly when those
  clock readings differ; computations in the same millisecond share an id.
\<close>

theorem route_id_by_clock:
  "(calculateRoute start end metric now = Returns (Some r)
      \<and> calculateRoute start' end' metric' now' = Returns (Some r')
      \<longrightarrow> (route_id r = route_id r' \<longleftrightarrow> now = now'))
   \<and> (fst (getDirections from to lag latency response w) = Returns (Some r)
      \<and> fst (getDirections from' to' lag' latency' response' w') = Returns (Some r')
      \<longrightarrow> (route_id r = route_id r'
            \<longleftrightarrow> clock (snd (getDirections from to lag latency response w))
                = clock (snd (getDirections from' to' lag' latency' response' w'))))
   \<and> (calculateRoute start end metric now = Returns (Some r)
      \<and> fst (getDirections from' to' lag' latency' response' w') = Returns (Some r')
      \<longrightarrow> (route_id r = route_id r'
            \<longleftrightarrow> now = clock (snd (getDirections from' to' lag' latency' response' w'))))"
proof (intro conjI impI)
  assume "calculateRoute start end metric now = Returns (Some r)
      \<and> calculateRoute start' end' metric' now' = Returns (Some r')"
  then show "route_id r = route_id r' \<longleftrightarrow> now = now'"
    using calculateRoute_id [of start "end" metric now r]
          calculateRoute_id [of start' end' metric' now' r']
    by (simp add: string_of_nat_inj)
next
  assume "fst (getDirections from to lag latency response w) = Returns (Some r)
      \<and> fst (getDirections from' to' lag' latency' response' w') = Returns (Some r')"
  then show "route_id r = route_id r'
            \<longleftrightarrow> clock (snd (getDirections from to lag latency response w))
                = clock (snd (getDirections from' to' lag' latency' response' w'))"
    using getDirections_id [of "from" to lag latency response w r]
          getDirections_id [of from' to' lag' latency' response' w' r']
    by (simp add: string_of_nat_inj)
next
  assume "calculateRoute start end metric now = Returns (Some r)
      \<and> fst (getDirections from' to' lag' latency' response' w') = Returns (Some r')"
  then show "route_id r = route_id r'
            \<longleftrightarrow> now = clock (snd (getDirections from' to' lag' latency' response' w'))"
    using calculateRoute_id [of start "end" metric now r]
          getDirections_id [of from' to' lag' latency' response' w' r']
    by (simp add: string_of_nat_inj)
qed

theorem route_id_by_clock_witness:
  "calculateRoute \<lparr>lat = 14.6741, lng = 121.0359\<rparr> \<lparr>lat = 14.6575, lng = 121.0580\<rparr> TIME 1
     = Returns (Some (palengkeRoute 1))
   \<and> calculateRoute \<lparr>lat = 14.6741, lng = 121.0359\<rparr> \<lparr>lat = 14.6575, lng = 121.0580\<rparr> TIME 2
     = Returns (Some (palengkeRoute 2))
   \<and> route_id (palengkeRoute 1) \<noteq> route_id (palengkeRoute 2)"
proof -
  have a: "calculateRoute \<lparr>lat = 14.6741, lng = 121.0359\<rparr> \<lparr>lat = 14.6575, lng = 121.0580\<rparr> TIME 1
     = Returns (Some (palengkeRoute 1))"
    using route_palengke_technohub
            [of "\<lparr>lat = 14.6741, lng = 121.0359\<rparr>" "\<lparr>lat = 14.6575, lng = 121.0580\<rparr>" 1]
          findNearestNode_palengke findNearestNode_technohub
    by (simp add: palengkeRoute_def)
  have b: "calculateRoute \<lparr>lat = 14.6741, lng = 121.0359\<rparr> \<lparr>lat = 14.6575, lng = 121.0580\<rparr> TIME 2
     = Returns (Some (palengkeRoute 2))"
    using route_palengke_technohub
            [of "\<lparr>lat = 14.6741, lng = 121.0359\<rparr>" "\<lparr>lat = 14.6575, lng = 121.0580\<rparr>" 2]
          findNearestNode_palengke findNearestNode_technohub
    by (simp add: palengkeRoute_def)
  from route_id_by_clock
         [of "\<lparr>lat = 14.6741, lng = 121.0359\<rparr>" "\<lparr>lat = 14.6575, lng = 121.0580\<rparr>" TIME 1
             "palengkeRoute 1"
             "\<lparr>lat = 14.6741, lng = 121.0359\<rparr>" "\<lparr>lat = 14.6575, lng = 121.0580\<rparr>" TIME 2
             "palengkeRoute 2"]
       a b
  have "route_id (palengkeRoute 1) = route_id (palengkeRoute 2) \<longleftrightarrow> (1::nat) = 2"
    by blast
  then have "route_id (palengkeRoute 1) \<noteq> route_id (palengkeRoute 2)" by simp
  with a b show ?thesis by (simp only: simp_thms)
qed

section \<open>The throttle\<close>

text \<open>
  C4 (as stated, refuted). Two \<^verbatim>\<open>searchPlaces\<close> calls in a row: the first goes out at
  5000 ms and takes 100 ms, the second starts at once, sleeps 200 ms and goes out at
  5300 ms, 300 ms after the first and not 1000 ms. A second \<^verbatim>\<open>reverseGeocode\<close> call
  100 ms after the first sleeps a full 500 ms, not the remaining 400 ms.
\<close>

theorem throttle_counterexample:
  "lastCallTime (snd (searchPlaces ''SM City'' 0 100 FetchRejected
                        \<lparr>clock = 5000, lastCallTime = 0\<rparr>)) = 5000
   \<and> lastCallTime (snd (searchPlaces ''SM City'' 0 100 FetchRejected
                          (snd (searchPlaces ''SM City'' 0 100 FetchRejected
                                  \<lparr>clock = 5000, lastCallTime = 0\<rparr>)))) = 5300
   \<and> lastCallTime (snd (reverseGeocode 14.6741 121.0359 0 100 FetchRejected
                          \<lparr>clock = 5000, lastCallTime = 0\<rparr>)) = 5000
   \<and> lastCallTime (snd (reverseGeocode 14.6741 121.0359 0 100 FetchRejected
                          (snd (reverseGeocode 14.6741 121.0359 0 100 FetchRejected
                                  \<lparr>clock = 5000, lastCallTime = 0\<rparr>)))) = 5600"
  by (simp add: searchPlaces_def reverseGeocode_def Let_def wait_def await_def
        MIN_CALL_INTERVAL_def searchAttempt_def reverseAttempt_def)

lemma getDirections_world:
  "snd (getDirections start end lag latency response w) =
     (let timeSinceLast = int (clock w) - int (lastCallTime w);
          w1 = (if timeSinceLast < int MIN_CALL_INTERVAL
                then wait (int MIN_CALL_INTERVAL - timeSinceLast) lag w else w)
      in await latency (w1\<lparr>lastCallTime := clock w1\<rparr>))"
  by (simp add: getDirections_def Let_def split: sum.splits)

lemma reverseGeocode_world:
  "snd (reverseGeocode la lo lag latency response w) =
     (let timeSinceLast = int (clock w) - int (lastCallTime w);
          w1 = (if timeSinceLast < 500 then wait 500 lag w else w)
      in await latency (w1\<lparr>lastCallTime := clock w1\<rparr>))"
  by (simp add: reverseGeocode_def Let_def split: sum.splits)

text \<open>
  C4 (amended). Take a call, any idle time after it, and the next call of the same kind;
  the time of an outbound call is the value that the call stores in \<^verbatim>\<open>lastCallTime\<close>.
  For \<^verbatim>\<open>getDirections\<close> the two outbound calls are at least 1000 ms apart, and a call
  that would go out sooner sleeps for the remaining interval, so that it goes out 1000
  ms after the previous one (plus the timer's lateness). For \<^verbatim>\<open>reverseGeocode\<close> they
  are at least 500 ms apart, and a call that starts less than 500 ms after the previous
  one sleeps for a full 500 ms.
\<close>

theorem throttle_gap:
  "(w1 = snd (getDirections start end lag latency response w)
      \<and> w2 = snd (getDirections start' end' lag' latency' response' (await idle w1))
      \<longrightarrow> lastCallTime w1 + 1000 \<le> lastCallTime w2
          \<and> (latency + idle < 1000 \<longrightarrow> lastCallTime w2 = lastCallTime w1 + 1000 + lag'))
   \<and> (v1 = snd (reverseGeocode la lo lag latency gresponse w)
      \<and> v2 = snd (reverseGeocode la' lo' lag' latency' gresponse' (await idle v1))
      \<longrightarrow> lastCallTime v1 + 500 \<le> lastCallTime v2
          \<and> (latency + idle < 500
               \<longrightarrow> lastCallTime v2 = lastCallTime v1 + latency + idle + 500 + lag'))"
  by (auto simp: getDirections_world reverseGeocode_world Let_def wait_def await_def
        MIN_CALL_INTERVAL_def)

theorem throttle_gap_witness:
  "lastCallTime (snd (getDirections \<lparr>lat = 14.6741, lng = 121.0359\<rparr> \<lparr>lat = 14.6575, lng = 121.0580\<rparr>
                        0 100 FetchRejected \<lparr>clock = 5000, lastCallTime = 0\<rparr>)) = 5000
   \<and> lastCallTime (snd (getDirections \<lparr>lat = 14.6741, lng = 121.0359\<rparr> \<lparr>lat = 14.6575, lng = 121.0580\<rparr>
                        0 100 FetchRejected
                        (await 0 (snd (getDirections \<lparr>lat = 14.6741, lng = 121.0359\<rparr>
                                         \<lparr>lat = 14.6575, lng = 121.0580\<rparr>
                                         0 100 FetchRejected \<lparr>clock = 5000, lastCallTime = 0\<rparr>)))))
       = 6000
   \<and> lastCallTime (snd (reverseGeocode 14.6741 121.0359 0 100 FetchRejected
                          (await 0 (snd (reverseGeocode 14.6741 121.0359 0 100 FetchRejected
                                  \<lparr>clock = 5000, lastCallTime = 0\<rparr>))))) = 5600"
proof -
  let ?A = "\<lparr>lat = 14.6741, lng = 121.0359\<rparr>" and ?B = "\<lparr>lat = 14.6575, lng = 121.0580\<rparr>"
  let ?w = "\<lparr>clock = 5000, lastCallTime = 0\<rparr>"
  let ?w1 = "snd (getDirections ?A ?B 0 100 FetchRejected ?w)"
  let ?w2 = "snd (getDirections ?A ?B 0 100 FetchRejected (await 0 ?w1))"
  let ?v1 = "snd (reverseGeocode 14.6741 121.0359 0 100 FetchRejected ?w)"
  let ?v2 = "snd (reverseGeocode 14.6741 121.0359 0 100 FetchRejected (await 0 ?v1))"
  have l1: "lastCallTime ?w1 = 5000"
    by (simp add: getDirections_world Let_def wait_def await_def MIN_CALL_INTERVAL_def)
  have k1: "lastCallTime ?v1 = 5000"
    by (simp add: reverseGeocode_world Let_def wait_def await_def)
  from throttle_gap
         [of ?w1 ?A ?B 0 100 FetchRejected ?w ?w2 ?A ?B 0 100 FetchRejected 0
             ?v1 "14.6741" "121.0359" FetchRejected ?v2 "14.6741" "121.0359" FetchRejected]
  have "lastCallTime ?w2 = lastCallTime ?w1 + 1000 + 0"
    and "lastCallTime ?v2 = lastCallTime ?v1 + 100 + 0 + 500 + 0"
    by simp_all
  with l1 k1 show ?thesis by simp
qed

end
